theory Spec2Isabelle
  imports Complex_Main
begin

section \<open>Currency converter: rate providers, conversion and history\<close>

text \<open>
  A shallow embedding of the core classes of \<^verbatim>\<open>main.py\<close>:
  \<^verbatim>\<open>OnlineRateProvider\<close>, \<^verbatim>\<open>OfflineRateProvider\<close>, \<^verbatim>\<open>HistoryManager\<close> and
  \<^verbatim>\<open>CurrencyConverter\<close>. Mutation of \<^verbatim>\<open>self\<close> is explicit state passing, the cache
  file and the remote quote source are explicit inputs, and every exception the code can
  meet is a branch of the model.
\<close>

subsection \<open>Numbers\<close>

text \<open>
  Python numbers (\<^verbatim>\<open>int\<close> and \<^verbatim>\<open>float\<close>, which compare and mix freely) are modelled
  as exact reals extended with the three non-finite floats. Rounding, overflow of finite
  values to infinity and the negative zero are not modelled.
\<close>

datatype pynum = Fin real | PosInf | NegInf | NaN

datatype py_error = ZeroDivisionError | ValueError



text \<open>The sign of a number that is not a NaN, and the infinity of a given sign
  (a zero sign gives NaN, as in \<^verbatim>\<open>inf * 0\<close>).\<close>

fun num_sign :: "pynum \<Rightarrow> real" where
  "num_sign (Fin a) = sgn a"
| "num_sign PosInf = 1"
| "num_sign NegInf = - 1"
| "num_sign NaN = 0"

definition inf_of_sign :: "real \<Rightarrow> pynum" where
  "inf_of_sign s = (if 0 < s then PosInf else if s < 0 then NegInf else NaN)"


text \<open>Python \<^verbatim>\<open>x / y\<close>: a zero divisor raises \<^verbatim>\<open>ZeroDivisionError\<close>, whatever the
  dividend.\<close>

fun num_div :: "pynum \<Rightarrow> pynum \<Rightarrow> py_error + pynum" where
  "num_div x (Fin b) =
     (if b = 0 then Inl ZeroDivisionError
      else case x of
             Fin a \<Rightarrow> Inr (Fin (a / b))
           | NaN \<Rightarrow> Inr NaN
           | _ \<Rightarrow> Inr (inf_of_sign (num_sign x * sgn b)))"
| "num_div x NaN = Inr NaN"
| "num_div (Fin a) _ = Inr (Fin 0)"
| "num_div _ _ = Inr NaN"

subsection \<open>Conversion history\<close>

text \<open>An entry of the history: the dictionary that \<^verbatim>\<open>convert\<close> builds.\<close>

record entry =
  timestamp :: string
  amount :: pynum
  from_currency :: string
  to_currency :: string
  rate :: pynum
  result :: pynum

record history_manager =
  history_list :: "entry list"

definition HistoryManager_init :: history_manager where
  "HistoryManager_init = \<lparr>history_list = []\<rparr>"

text \<open>\<^verbatim>\<open>save_entry\<close>: append, then \<^verbatim>\<open>pop(0)\<close> when more than 50 entries are held.\<close>

definition save_entry :: "history_manager \<Rightarrow> entry \<Rightarrow> history_manager" where
  "save_entry hm e =
     (let appended = history_list hm @ [e]
      in if length appended > 50
         then hm\<lparr>history_list := tl appended\<rparr>
         else hm\<lparr>history_list := appended\<rparr>)"

definition get_history :: "history_manager \<Rightarrow> entry list" where
  "get_history hm = history_list hm"

definition clear_history :: "history_manager \<Rightarrow> history_manager" where
  "clear_history hm = hm\<lparr>history_list := []\<rparr>"

subsection \<open>Text and time: the library calls the code relies on\<close>

text \<open>Decimal digits (ASCII).\<close>

definition digit_val :: "char \<Rightarrow> nat option" where
  "digit_val c =
     map_of [(CHR ''0'', 0), (CHR ''1'', 1), (CHR ''2'', 2), (CHR ''3'', 3), (CHR ''4'', 4),
             (CHR ''5'', 5), (CHR ''6'', 6), (CHR ''7'', 7), (CHR ''8'', 8), (CHR ''9'', 9)] c"

definition is_digit :: "char \<Rightarrow> bool" where
  "is_digit c = (digit_val c \<noteq> None)"

definition digit_char :: "nat \<Rightarrow> char" where
  "digit_char n = ''0123456789'' ! (n mod 10)"

definition digits_val :: "string \<Rightarrow> nat" where
  "digits_val ds = foldl (\<lambda>acc c. 10 * acc + (case digit_val c of Some d \<Rightarrow> d | None \<Rightarrow> 0)) 0 ds"

definition pad2 :: "nat \<Rightarrow> string" where
  "pad2 n = [digit_char (n div 10), digit_char n]"

definition pad4 :: "nat \<Rightarrow> string" where
  "pad4 n = [digit_char (n div 1000), digit_char (n div 100), digit_char (n div 10), digit_char n]"

text \<open>A \<^verbatim>\<open>datetime\<close> object. Python only builds valid ones (\<open>valid_datetime\<close>).\<close>

record datetime =
  year :: nat
  month :: nat
  day :: nat
  hour :: nat
  minute :: nat
  second :: nat
  microsecond :: nat

definition leap_year :: "nat \<Rightarrow> bool" where
  "leap_year y = (y mod 4 = 0 \<and> (y mod 100 \<noteq> 0 \<or> y mod 400 = 0))"

definition days_in_month :: "nat \<Rightarrow> nat \<Rightarrow> nat" where
  "days_in_month y m =
     (if m = 2 then (if leap_year y then 29 else 28)
      else if m = 4 \<or> m = 6 \<or> m = 9 \<or> m = 11 then 30 else 31)"

definition valid_datetime :: "datetime \<Rightarrow> bool" where
  "valid_datetime d =
     (1 \<le> year d \<and> year d \<le> 9999 \<and> 1 \<le> month d \<and> month d \<le> 12 \<and>
      1 \<le> day d \<and> day d \<le> days_in_month (year d) (month d) \<and>
      hour d < 24 \<and> minute d < 60 \<and> second d < 60 \<and> microsecond d < 1000000)"

text \<open>\<^verbatim>\<open>d.strftime("%Y-%m-%d %H:%M:%S")\<close>, the form of the cache file's time stamp.\<close>

definition strftime_Ymd_HMS :: "datetime \<Rightarrow> string" where
  "strftime_Ymd_HMS d =
     pad4 (year d) @ ''-'' @ pad2 (month d) @ ''-'' @ pad2 (day d) @ '' '' @
     pad2 (hour d) @ '':'' @ pad2 (minute d) @ '':'' @ pad2 (second d)"


text \<open>
  \<^verbatim>\<open>datetime.strptime(s, "%Y-%m-%d %H:%M:%S")\<close> on the fixed-width form that
  \<^verbatim>\<open>strftime\<close> writes: \<open>None\<close> is the \<^verbatim>\<open>ValueError\<close>. (The library also accepts
  one-digit fields in a file edited by hand; the model covers the canonical form, and the
  theorems below depend on \<open>strptime_Ymd_HMS\<close> only through its result.)
\<close>

definition strptime_Ymd_HMS :: "string \<Rightarrow> datetime option" where
  "strptime_Ymd_HMS s =
     (case s of
        [y1, y2, y3, y4, s1, m1, m2, s2, d1, d2, s3, h1, h2, s4, n1, n2, s5, c1, c2] \<Rightarrow>
          if s1 = CHR ''-'' \<and> s2 = CHR ''-'' \<and> s3 = CHR '' '' \<and> s4 = CHR '':'' \<and> s5 = CHR '':'' \<and>
             list_all is_digit [y1, y2, y3, y4, m1, m2, d1, d2, h1, h2, n1, n2, c1, c2]
          then
            (let d = \<lparr>year = digits_val [y1, y2, y3, y4], month = digits_val [m1, m2],
                      day = digits_val [d1, d2], hour = digits_val [h1, h2],
                      minute = digits_val [n1, n2], second = digits_val [c1, c2],
                      microsecond = 0\<rparr>
             in if valid_datetime d then Some d else None)
          else None
      | _ \<Rightarrow> None)"









subsection \<open>Rate tables, the cache file and the remote source\<close>

text \<open>A rate table is a Python dictionary from currency codes to numbers, kept as an
  association list in insertion order; \<open>dict_get t k d\<close> is \<^verbatim>\<open>t.get(k, d)\<close> and
  \<open>t = []\<close> is \<^verbatim>\<open>not t\<close>.\<close>

type_synonym rate_table = "(string \<times> pynum) list"

definition dict_get :: "rate_table \<Rightarrow> string \<Rightarrow> pynum \<Rightarrow> pynum" where
  "dict_get t k d = (case map_of t k of Some v \<Rightarrow> v | None \<Rightarrow> d)"

text \<open>
  What \<^verbatim>\<open>json.load\<close> reads from the cache file: \<open>Missing\<close> when the path does not
  exist, \<open>Unreadable\<close> when opening or parsing raises (also when the document is not an
  object), otherwise the three optional fields of the document.
\<close>

record cache_data =
  cache_rates :: "rate_table option"
  cache_base_currency :: "string option"
  cache_last_update :: "string option"

datatype cache_file = Missing | Unreadable | Content cache_data

text \<open>How the write of \<^verbatim>\<open>save_cache\<close> ends: done, \<^verbatim>\<open>open\<close> raised (the file is as
  before), or \<^verbatim>\<open>json.dump\<close> raised after the file was truncated.\<close>

datatype write_outcome = Written | OpenFailed | DumpFailed

text \<open>How \<^verbatim>\<open>requests.get\<close> ends: it raises (timeout, transport error), or it returns a
  status code and a body, which is not JSON, JSON without a usable \<^verbatim>\<open>rates\<close> entry, or
  JSON with a rate table.\<close>

datatype json_body = NotJson | JsonWithoutRates | JsonRates rate_table

datatype http_result = RequestRaised | Response nat json_body

subsection \<open>OnlineRateProvider\<close>

record online_rate_provider =
  rates :: rate_table
  base_currency :: string
  last_update :: "datetime option"

definition OnlineRateProvider_init :: online_rate_provider where
  "OnlineRateProvider_init = \<lparr>rates = [], base_currency = ''USD'', last_update = None\<rparr>"

text \<open>\<^verbatim>\<open>save_cache\<close>: every exception is caught and printed.\<close>

definition save_cache :: "online_rate_provider \<Rightarrow> write_outcome \<Rightarrow> cache_file \<Rightarrow> cache_file" where
  "save_cache p w file =
     (case w of
        Written \<Rightarrow>
          Content \<lparr>cache_rates = Some (rates p),
                   cache_base_currency = Some (base_currency p),
                   cache_last_update =
                     Some (case last_update p of Some d \<Rightarrow> strftime_Ymd_HMS d | None \<Rightarrow> [])\<rparr>
      | OpenFailed \<Rightarrow> file
      | DumpFailed \<Rightarrow> Unreadable)"

text \<open>\<^verbatim>\<open>load_cache\<close>: the fields are assigned one after the other, so a
  \<^verbatim>\<open>ValueError\<close> of \<^verbatim>\<open>strptime\<close> is caught after the table and the base currency
  have been replaced.\<close>

definition load_cache :: "online_rate_provider \<Rightarrow> cache_file \<Rightarrow> bool \<times> online_rate_provider" where
  "load_cache p file =
     (case file of
        Content cd \<Rightarrow>
          (let p1 = p\<lparr>rates := (case cache_rates cd of Some t \<Rightarrow> t | None \<Rightarrow> []),
                      base_currency :=
                        (case cache_base_currency cd of Some b \<Rightarrow> b | None \<Rightarrow> ''USD'')\<rparr>;
               last_update_str = (case cache_last_update cd of Some s \<Rightarrow> s | None \<Rightarrow> [])
           in if last_update_str \<noteq> [] then
                (case strptime_Ymd_HMS last_update_str of
                   Some d \<Rightarrow> (rates p1 \<noteq> [], p1\<lparr>last_update := Some d\<rparr>)
                 | None \<Rightarrow> (False, p1))
              else (rates p1 \<noteq> [], p1))
      | Missing \<Rightarrow> (False, p)
      | Unreadable \<Rightarrow> (False, p))"

text \<open>The table that the \<^verbatim>\<open>try\<close> block of \<^verbatim>\<open>fetch_rates\<close> obtains: status 200, a
  JSON body and its \<^verbatim>\<open>rates\<close> entry; \<open>None\<close> when any of these fails.\<close>

definition remote_rates :: "http_result \<Rightarrow> rate_table option" where
  "remote_rates http =
     (case http of
        RequestRaised \<Rightarrow> None
      | Response status_code body \<Rightarrow>
          if status_code = 200 then
            (case body of JsonRates t \<Rightarrow> Some t | NotJson \<Rightarrow> None | JsonWithoutRates \<Rightarrow> None)
          else None)"

text \<open>\<^verbatim>\<open>fetch_rates\<close>, given the outcome of the request, the current time and the outcome
  of the cache write; it returns the success flag, the provider and the cache file.\<close>

definition fetch_rates ::
  "online_rate_provider \<Rightarrow> http_result \<Rightarrow> datetime \<Rightarrow> write_outcome \<Rightarrow> cache_file
     \<Rightarrow> bool \<times> online_rate_provider \<times> cache_file" where
  "fetch_rates p http now w file =
     (case remote_rates http of
        Some t \<Rightarrow>
          (let p' = p\<lparr>rates := t, last_update := Some now\<rparr>
           in (True, p', save_cache p' w file))
      | None \<Rightarrow> (case load_cache p file of (ok, p') \<Rightarrow> (ok, p', file)))"

text \<open>\<^verbatim>\<open>get_exchange_rate\<close> of the online provider; a \<^verbatim>\<open>ZeroDivisionError\<close> is caught
  and gives 0.\<close>

definition online_get_exchange_rate :: "online_rate_provider \<Rightarrow> string \<Rightarrow> string \<Rightarrow> pynum" where
  "online_get_exchange_rate p from_cur to_cur =
     (if rates p = [] then Fin 0
      else if from_cur = to_cur then Fin 1
      else if from_cur = base_currency p then dict_get (rates p) to_cur (Fin 0)
      else if to_cur = base_currency p then
        (let from_rate = dict_get (rates p) from_cur (Fin 0)
         in if from_rate \<noteq> Fin 0
            then (case num_div (Fin 1) from_rate of Inr q \<Rightarrow> q | Inl e \<Rightarrow> Fin 0)
            else Fin 0)
      else
        (let from_rate = dict_get (rates p) from_cur (Fin 0);
             to_rate = dict_get (rates p) to_cur (Fin 0)
         in if from_rate \<noteq> Fin 0 \<and> to_rate \<noteq> Fin 0
            then (case num_div to_rate from_rate of Inr q \<Rightarrow> q | Inl e \<Rightarrow> Fin 0)
            else Fin 0))"

definition online_get_all_rates :: "online_rate_provider \<Rightarrow> rate_table" where
  "online_get_all_rates p = rates p"

subsection \<open>OfflineRateProvider\<close>

record offline_rate_provider =
  offline_rates :: rate_table

definition static_rates :: rate_table where
  "static_rates =
     [(''USD'', Fin 1), (''EUR'', Fin 0.85), (''UAH'', Fin 37), (''GBP'', Fin 0.73),
      (''JPY'', Fin 110), (''CAD'', Fin 1.25), (''AUD'', Fin 1.35), (''CHF'', Fin 0.92),
      (''CNY'', Fin 6.45), (''SEK'', Fin 8.75), (''NOK'', Fin 8.95), (''PLN'', Fin 3.85),
      (''CZK'', Fin 21.5), (''TRY'', Fin 8.25), (''RUB'', Fin 75)]"

text \<open>The offline \<^verbatim>\<open>load_cache\<close> reads the \<^verbatim>\<open>rates\<close> entry only.\<close>

definition offline_load_cache :: "cache_file \<Rightarrow> rate_table" where
  "offline_load_cache file =
     (case file of
        Content cd \<Rightarrow> (case cache_rates cd of Some t \<Rightarrow> t | None \<Rightarrow> [])
      | Missing \<Rightarrow> []
      | Unreadable \<Rightarrow> [])"

definition OfflineRateProvider_init :: "cache_file \<Rightarrow> offline_rate_provider" where
  "OfflineRateProvider_init file =
     (let loaded = offline_load_cache file
      in \<lparr>offline_rates = (if loaded = [] then static_rates else loaded)\<rparr>)"

text \<open>\<^verbatim>\<open>get_exchange_rate\<close> of the offline provider has no handler: a
  \<^verbatim>\<open>ZeroDivisionError\<close> would reach the caller.\<close>

definition offline_get_exchange_rate ::
  "offline_rate_provider \<Rightarrow> string \<Rightarrow> string \<Rightarrow> py_error + pynum" where
  "offline_get_exchange_rate p from_cur to_cur =
     (if from_cur = to_cur then Inr (Fin 1)
      else
        (let from_rate = dict_get (offline_rates p) from_cur (Fin 0);
             to_rate = dict_get (offline_rates p) to_cur (Fin 0)
         in if from_rate \<noteq> Fin 0 \<and> to_rate \<noteq> Fin 0
            then num_div to_rate from_rate
            else Inr (Fin 0)))"

definition offline_get_all_rates :: "offline_rate_provider \<Rightarrow> rate_table" where
  "offline_get_all_rates p = offline_rates p"

subsection \<open>CurrencyConverter\<close>

datatype rate_provider = Online online_rate_provider | Offline offline_rate_provider

text \<open>Dynamic dispatch of \<^verbatim>\<open>get_exchange_rate\<close> on the installed provider.\<close>

fun get_exchange_rate :: "rate_provider \<Rightarrow> string \<Rightarrow> string \<Rightarrow> py_error + pynum" where
  "get_exchange_rate (Online p) from_cur to_cur = Inr (online_get_exchange_rate p from_cur to_cur)"
| "get_exchange_rate (Offline p) from_cur to_cur = offline_get_exchange_rate p from_cur to_cur"

record currency_converter =
  exchange_rate_provider :: rate_provider
  history_manager :: history_manager



subsection \<open>Sample data\<close>

text \<open>The table of the scenario: base \<^verbatim>\<open>USD\<close>, \<^verbatim>\<open>{USD: 1, EUR: 0.85, UAH: 37.0}\<close>.\<close>

definition example_rates :: rate_table where
  "example_rates = [(''USD'', Fin 1), (''EUR'', Fin 0.85), (''UAH'', Fin 37)]"

definition example_online :: online_rate_provider where
  "example_online = \<lparr>rates = example_rates, base_currency = ''USD'', last_update = None\<rparr>"

definition example_now :: datetime where
  "example_now = \<lparr>year = 2024, month = 1, day = 15, hour = 12, minute = 30, second = 45,
                    microsecond = 123456\<rparr>"



text \<open>The cache document \<^verbatim>\<open>{}\<close>: no field is present.\<close>

definition empty_cache :: cache_data where
  "empty_cache = \<lparr>cache_rates = None, cache_base_currency = None, cache_last_update = None\<rparr>"


definition example_entry :: "nat \<Rightarrow> entry" where
  "example_entry n =
     \<lparr>timestamp = ''15.01.2024 12:30'', amount = Fin (real n), from_currency = ''USD'',
      to_currency = ''EUR'', rate = Fin 0.85, result = Fin (real n * 0.85)\<rparr>"

section \<open>Properties\<close>

subsection \<open>History\<close>

lemma save_entry_list:
  "history_list (save_entry hm e) =
     (if length (history_list hm) \<ge> 50 then tl (history_list hm) @ [e]
      else history_list hm @ [e])"
  by (cases "history_list hm") (auto simp: save_entry_def Let_def)

lemma tl_drop_Suc: "tl (drop k xs) = drop (Suc k) xs"
  by (simp add: drop_Suc tl_drop)

lemma foldl_save_entry:
  "length (history_list hm) \<le> 50 \<Longrightarrow>
   history_list (foldl save_entry hm es) =
     drop (length (history_list hm) + length es - 50) (history_list hm @ es)"
proof (induction es rule: rev_induct)
  case Nil
  then show ?case by simp
next
  case (snoc e es)
  let ?h = "history_list hm"
  let ?k = "length ?h + length es - 50"
  have ih: "history_list (foldl save_entry hm es) = drop ?k (?h @ es)"
    using snoc by simp
  have len: "length (drop ?k (?h @ es)) = min (length ?h + length es) 50"
    by simp
  show ?case
  proof (cases "length ?h + length es \<ge> 50")
    case True
    then have "history_list (foldl save_entry hm (es @ [e])) = tl (drop ?k (?h @ es)) @ [e]"
      using ih len by (simp add: save_entry_list)
    also have "tl (drop ?k (?h @ es)) = drop (Suc ?k) (?h @ es)"
      by (rule tl_drop_Suc)
    also have "drop (Suc ?k) (?h @ es) @ [e] = drop (Suc ?k) (?h @ es @ [e])"
      using True by simp
    also have "Suc ?k = length ?h + length (es @ [e]) - 50"
      using True by simp
    finally show ?thesis .
  next
    case False
    then show ?thesis using ih by (simp add: save_entry_list)
  qed
qed

lemma history_from_empty:
  "history_list (foldl save_entry HistoryManager_init es) = drop (length es - 50) es"
  using foldl_save_entry [of HistoryManager_init es] by (simp add: HistoryManager_init_def)

text \<open>
  C8. Starting from the empty history, any sequence of \<open>save_entry\<close> calls leaves at most
  50 entries, namely the last 50 saved, in the order saved. One call appends the entry
  at the end and drops the entry at index 0 exactly when the length would exceed 50.
  After 51 saves there are exactly 50 entries: all but the first, in order (so the first
  is absent when the entries are distinct).
\<close>

theorem history_capacity_fifo:
  "length (history_list (foldl save_entry HistoryManager_init es)) \<le> 50
   \<and> history_list (foldl save_entry HistoryManager_init es) = drop (length es - 50) es
   \<and> history_list (save_entry hm e) =
       (if length (history_list hm @ [e]) > 50 then tl (history_list hm @ [e])
        else history_list hm @ [e])
   \<and> last (history_list (save_entry hm e)) = e
   \<and> (length es = 51 \<longrightarrow>
        length (history_list (foldl save_entry HistoryManager_init es)) = 50
        \<and> history_list (foldl save_entry HistoryManager_init es) = tl es
        \<and> (distinct es \<longrightarrow> hd es \<notin> set (history_list (foldl save_entry HistoryManager_init es))))"
proof -
  have a: "history_list (foldl save_entry HistoryManager_init es) = drop (length es - 50) es"
    by (rule history_from_empty)
  have b: "length (drop (length es - 50) es) \<le> 50"
    by simp
  have c: "history_list (save_entry hm e) =
       (if length (history_list hm @ [e]) > 50 then tl (history_list hm @ [e])
        else history_list hm @ [e])"
    by (simp add: save_entry_def Let_def)
  have d: "last (history_list (save_entry hm e)) = e"
    by (cases "history_list hm") (auto simp: save_entry_list)
  have e: "drop (length es - 50) es = tl es" if "length es = 51"
    using that by (simp add: drop_Suc)
  have f: "hd es \<notin> set (tl es)" if "length es = 51" "distinct es"
    using that by (cases es) auto
  show ?thesis
    using a b c d e f by simp
qed


theorem history_capacity_fifo_witness:
  "length (map example_entry [0..<51]) = 51
   \<and> distinct (map example_entry [0..<51])
   \<and> length (history_list (foldl save_entry HistoryManager_init (map example_entry [0..<51]))) = 50
   \<and> history_list (foldl save_entry HistoryManager_init (map example_entry [0..<51]))
       = tl (map example_entry [0..<51])
   \<and> hd (map example_entry [0..<51])
       \<notin> set (history_list (foldl save_entry HistoryManager_init (map example_entry [0..<51])))"
proof -
  have len: "length (map example_entry [0..<51]) = 51"
    by simp
  have dist: "distinct (map example_entry [0..<51])"
    by (simp add: distinct_map inj_on_def example_entry_def)
  show ?thesis
    using history_capacity_fifo [of "map example_entry [0..<51]"] len dist
    by blast
qed

subsection \<open>Numbers and the rate functions\<close>










subsection \<open>Conversion\<close>





















subsection \<open>Equal codes\<close>

text \<open>
  C2, as amended. The offline provider returns 1 for every pair of equal codes. The
  online provider checks for an empty table first: it returns 1 for equal codes when its
  table is not empty and 0 when it is empty.
\<close>

theorem same_currency_rate:
  "get_exchange_rate (Offline q) c c = Inr (Fin 1)
   \<and> (rates p \<noteq> [] \<longrightarrow> get_exchange_rate (Online p) c c = Inr (Fin 1))
   \<and> (rates p = [] \<longrightarrow> get_exchange_rate (Online p) c c = Inr (Fin 0))"
  by (simp add: offline_get_exchange_rate_def online_get_exchange_rate_def)

theorem same_currency_rate_witness:
  "rates example_online \<noteq> []
   \<and> get_exchange_rate (Online example_online) ''EUR'' ''EUR'' = Inr (Fin 1)
   \<and> rates OnlineRateProvider_init = []
   \<and> get_exchange_rate (Online OnlineRateProvider_init) ''EUR'' ''EUR'' = Inr (Fin 0)
   \<and> get_exchange_rate (Offline (OfflineRateProvider_init Missing)) ''EUR'' ''EUR'' = Inr (Fin 1)"
proof -
  have a: "rates example_online \<noteq> []"
    by (simp add: example_online_def example_rates_def)
  have b: "rates OnlineRateProvider_init = []"
    by (simp add: OnlineRateProvider_init_def)
  show ?thesis
    using same_currency_rate [of "OfflineRateProvider_init Missing" "''EUR''" example_online]
      same_currency_rate [of "OfflineRateProvider_init Missing" "''EUR''" OnlineRateProvider_init]
      a b
    by blast
qed

text \<open>The claim as stated fails on a freshly constructed online provider, whose table is
  empty: the rate of \<^verbatim>\<open>USD\<close> to \<^verbatim>\<open>USD\<close> is 0, not 1.\<close>

theorem same_currency_rate_counterexample:
  "rates OnlineRateProvider_init = []
   \<and> get_exchange_rate (Online OnlineRateProvider_init) ''USD'' ''USD'' = Inr (Fin 0)
   \<and> get_exchange_rate (Online OnlineRateProvider_init) ''USD'' ''USD'' \<noteq> Inr (Fin 1)"
  by (simp add: online_get_exchange_rate_def OnlineRateProvider_init_def)

subsection \<open>Pairwise rates\<close>










subsection \<open>Fetching and the cache\<close>

lemma load_cache_absent:
  "file = Missing \<or> file = Unreadable \<Longrightarrow> load_cache p file = (False, p)"
  by (auto simp: load_cache_def)

lemma load_cache_content:
  "load_cache p (Content cd) =
     (let t = (case cache_rates cd of Some t \<Rightarrow> t | None \<Rightarrow> []);
          b = (case cache_base_currency cd of Some b \<Rightarrow> b | None \<Rightarrow> ''USD'');
          s = (case cache_last_update cd of Some s \<Rightarrow> s | None \<Rightarrow> [])
      in if s = [] then (t \<noteq> [], p\<lparr>rates := t, base_currency := b\<rparr>)
         else case strptime_Ymd_HMS s of
                Some d \<Rightarrow> (t \<noteq> [], p\<lparr>rates := t, base_currency := b, last_update := Some d\<rparr>)
              | None \<Rightarrow> (False, p\<lparr>rates := t, base_currency := b\<rparr>))"
  by (simp add: load_cache_def Let_def split: option.splits)

lemma fetch_rates_fallback:
  "remote_rates http = None \<Longrightarrow>
   fetch_rates p http now w file = (fst (load_cache p file), snd (load_cache p file), file)"
  by (simp add: fetch_rates_def split: prod.splits)





text \<open>
  C6, as amended. When the remote fetch fails and the cache file is missing or cannot be
  read, \<open>fetch_rates\<close> returns \<open>False\<close> and the provider and the file are exactly as before.
  When the cache file can be read, the table in memory is replaced by the file's table
  (the empty table when the file has none), so a file with an empty table clears the table
  in memory and the call returns \<open>False\<close>.
\<close>

theorem fetch_rates_failure_frame:
  assumes "remote_rates http = None"
  shows "(file = Missing \<or> file = Unreadable \<longrightarrow>
            fetch_rates p http now w file = (False, p, file))
    \<and> (\<forall>cd. file = Content cd \<longrightarrow>
          rates (fst (snd (fetch_rates p http now w file))) =
            (case cache_rates cd of Some t \<Rightarrow> t | None \<Rightarrow> [])
          \<and> (rates (fst (snd (fetch_rates p http now w file))) = [] \<longrightarrow>
               fst (fetch_rates p http now w file) = False))"
  using assms
  by (auto simp: fetch_rates_fallback load_cache_absent load_cache_content Let_def
      split: option.splits)

theorem fetch_rates_failure_frame_witness:
  "remote_rates RequestRaised = None
   \<and> fetch_rates example_online RequestRaised example_now Written Missing
       = (False, example_online, Missing)
   \<and> fetch_rates example_online RequestRaised example_now Written Unreadable
       = (False, example_online, Unreadable)
   \<and> rates (fst (snd (fetch_rates example_online RequestRaised example_now Written
                        (Content empty_cache)))) = []
   \<and> fst (fetch_rates example_online RequestRaised example_now Written (Content empty_cache))
       = False"
proof -
  have r: "remote_rates RequestRaised = None"
    by (simp add: remote_rates_def)
  have e: "cache_rates empty_cache = None"
    by (simp add: empty_cache_def)
  show ?thesis
    using fetch_rates_failure_frame [OF r, of Missing example_online example_now Written]
      fetch_rates_failure_frame [OF r, of Unreadable example_online example_now Written]
      fetch_rates_failure_frame [OF r, of "Content empty_cache" example_online example_now Written]
      r e
    by simp
qed

text \<open>The claim as stated fails: the provider holds the sample table, the request
  raises and the cache file is the document \<^verbatim>\<open>{}\<close>; the call returns \<open>False\<close> and the
  table in memory is now empty.\<close>

theorem fetch_rates_failure_frame_counterexample:
  "remote_rates RequestRaised = None
   \<and> rates example_online \<noteq> []
   \<and> fst (fetch_rates example_online RequestRaised example_now Written (Content empty_cache))
       = False
   \<and> rates (fst (snd (fetch_rates example_online RequestRaised example_now Written
                        (Content empty_cache)))) = []
   \<and> fst (snd (fetch_rates example_online RequestRaised example_now Written
                  (Content empty_cache))) \<noteq> example_online"
proof -
  have r: "remote_rates RequestRaised = None"
    by (simp add: remote_rates_def)
  have l: "load_cache example_online (Content empty_cache) =
      (False, \<lparr>rates = [], base_currency = ''USD'', last_update = None\<rparr>)"
    by (simp add: load_cache_content empty_cache_def example_online_def)
  show ?thesis
    by (simp add: fetch_rates_fallback [OF r] l r) (simp add: example_online_def example_rates_def)
qed

subsection \<open>Time stamps and the cache round trip\<close>











end
